theory Spec2Isabelle
  imports Main "HOL-Library.Sublist"
begin

section \<open>Python values used by the service\<close>

text \<open>
  A Python \<open>str\<close> is a sequence of Unicode code points; \<open>len\<close> counts code points and
  \<open>ord\<close> reads one. The model keeps exactly that: a string is the list of its code
  points, so \<open>length\<close> is Python's \<open>len\<close>. A byte string is a list of bytes.
\<close>

type_synonym pystr = "nat list"

type_synonym bytes = "nat list"

definition lit :: "string \<Rightarrow> pystr" where
  "lit s = map of_char s"

definition py_ord :: "nat \<Rightarrow> int" where
  "py_ord c = int c"

definition py_len :: "pystr \<Rightarrow> int" where
  "py_len s = int (length s)"

text \<open>\<open>str(n)\<close> for an integer: the decimal digits, most significant first.\<close>

function digits :: "nat \<Rightarrow> pystr" where
  "digits n = (if n < 10 then [48 + n] else digits (n div 10) @ [48 + n mod 10])"
  by pat_completeness auto
termination
  by (relation "measure (\<lambda>n. n)") auto

declare digits.simps [simp del]

definition py_str :: "int \<Rightarrow> pystr" where
  "py_str i = (if i < 0 then 45 # digits (nat (- i)) else digits (nat i))"

text \<open>\<open>sep.join(xs)\<close>.\<close>

fun py_join :: "pystr \<Rightarrow> pystr list \<Rightarrow> pystr" where
  "py_join sep [] = []"
| "py_join sep [x] = x"
| "py_join sep (x # y # ys) = x @ sep @ py_join sep (y # ys)"

section \<open>Configuration\<close>

text \<open>
  The fields of \<open>Config\<close> that the validator reads. \<open>ALLOWED_TYPES\<close> is a Python set of
  strings; a set has no fixed iteration order (string hashing is seeded per process), and
  \<open>', '.join\<close> iterates it, so the field is the list of the set's members in the order
  this process iterates them. \<open>config\<close> is the module-level \<open>Config()\<close>: its argument
  says whether \<open>'qrcode'\<close> comes first in that order.
\<close>

record Config =
  MAX_CONTENT_LENGTH :: int
  BARCODE_MAX_LENGTH :: int
  ALLOWED_TYPES :: "pystr list"

definition config :: "bool \<Rightarrow> Config" where
  "config qrcode_first =
     \<lparr> MAX_CONTENT_LENGTH = 1000,
       BARCODE_MAX_LENGTH = 64,
       ALLOWED_TYPES = (if qrcode_first then [lit ''qrcode'', lit ''barcode'']
                        else [lit ''barcode'', lit ''qrcode'']) \<rparr>"

section \<open>The validator\<close>

definition validate_input :: "Config \<Rightarrow> pystr \<Rightarrow> pystr \<Rightarrow> bool \<times> pystr" where
  "validate_input cfg content generate_type =
     (if content = [] then (False, lit ''Missing 'content' parameter'')
      else if generate_type \<notin> set (ALLOWED_TYPES cfg) then
        (False, lit ''Invalid type. Must be one of: '' @ py_join (lit '', '') (ALLOWED_TYPES cfg))
      else if generate_type = lit ''barcode'' then
        (if py_len content > BARCODE_MAX_LENGTH cfg then
           (False, lit ''Barcode content exceeds maximum length of ''
                   @ py_str (BARCODE_MAX_LENGTH cfg) @ lit '' characters'')
         else if \<not> list_all (\<lambda>char. 0 \<le> py_ord char \<and> py_ord char < 128) content then
           (False, lit ''Barcode content must contain only ASCII characters'')
         else (True, []))
      else
        (if py_len content > MAX_CONTENT_LENGTH cfg then
           (False, lit ''Content exceeds maximum length of ''
                   @ py_str (MAX_CONTENT_LENGTH cfg) @ lit '' characters'')
         else (True, [])))"

section \<open>The request handler\<close>

text \<open>
  \<open>str.strip()\<close> with no argument drops leading and trailing white space, which for a
  Python \<open>str\<close> is every code point for which \<open>str.isspace\<close> holds.
\<close>

definition is_space :: "nat \<Rightarrow> bool" where
  "is_space c =
     ((9 \<le> c \<and> c \<le> 13) \<or> (28 \<le> c \<and> c \<le> 32) \<or> c = 133 \<or> c = 160 \<or> c = 5760
      \<or> (8192 \<le> c \<and> c \<le> 8202) \<or> c = 8232 \<or> c = 8233 \<or> c = 8239 \<or> c = 8287
      \<or> c = 12288)"

definition py_strip :: "pystr \<Rightarrow> pystr" where
  "py_strip s = rev (dropWhile is_space (rev (dropWhile is_space s)))"

text \<open>A response object: its body, its MIME type and its headers.\<close>

record Response =
  data :: bytes
  mimetype :: pystr
  headers :: "pystr \<rightharpoonup> pystr"

text \<open>
  The collaborators the handler calls, as parameters. An encoder either raises (\<open>Inl\<close>
  carries \<open>str(e)\<close> of the exception) or fills the buffer (\<open>Inr\<close> carries the bytes
  written); the rendering options the handler passes are constants of the configuration,
  so an encoder is a function of the content alone. \<open>send_file\<close> builds the response
  from the buffer and the MIME type, or raises. \<open>unicode_lower\<close> is \<open>str.lower()\<close> on a
  string that is not pure ASCII, where the result comes from the Unicode case tables.
\<close>

record Libraries =
  code128_write :: "pystr \<Rightarrow> pystr + bytes"
  qr_save :: "pystr \<Rightarrow> pystr + bytes"
  send_file :: "bytes \<Rightarrow> pystr \<Rightarrow> pystr + Response"
  unicode_lower :: "pystr \<Rightarrow> pystr"

definition is_ascii :: "pystr \<Rightarrow> bool" where
  "is_ascii s = list_all (\<lambda>c. c < 128) s"

definition ascii_lower :: "nat \<Rightarrow> nat" where
  "ascii_lower c = (if 65 \<le> c \<and> c \<le> 90 then c + 32 else c)"

definition py_lower :: "Libraries \<Rightarrow> pystr \<Rightarrow> pystr" where
  "py_lower lib s = (if is_ascii s then map ascii_lower s else unicode_lower lib s)"

text \<open>
  A view returns either a pair of body text and status code, or a response object. The
  log is the list of records the view emits, in order.
\<close>

datatype view_result = Text_status pystr int | Response_object Response

datatype level = INFO | WARNING | ERROR

type_synonym log = "(level \<times> pystr) list"

definition add_security_headers :: "Response \<Rightarrow> Response" where
  "add_security_headers response =
     response \<lparr> headers := (headers response)
       (lit ''X-Content-Type-Options'' \<mapsto> lit ''nosniff'',
        lit ''X-Frame-Options'' \<mapsto> lit ''DENY'',
        lit ''X-XSS-Protection'' \<mapsto> lit ''1; mode=block'',
        lit ''Content-Security-Policy'' \<mapsto> lit ''default-src 'none'; img-src 'self'' @ [39],
        lit ''Cache-Control'' \<mapsto> lit ''no-store, no-cache, must-revalidate, max-age=0'') \<rparr>"

text \<open>\<open>request.args.get(key, default)\<close>: the query parameters as a map.\<close>

definition args_get :: "(pystr \<rightharpoonup> pystr) \<Rightarrow> pystr \<Rightarrow> pystr \<Rightarrow> pystr" where
  "args_get args k d = (case args k of None \<Rightarrow> d | Some v \<Rightarrow> v)"

text \<open>
  The tail of \<open>generate_code\<close> once the buffer is filled: \<open>send_file\<close>, the security
  headers, the success record. An exception here reaches the outer handler.
\<close>

definition prepare_response ::
    "Libraries \<Rightarrow> log \<Rightarrow> pystr \<Rightarrow> bytes \<Rightarrow> log \<times> view_result" where
  "prepare_response lib lg generate_type buf =
     (case send_file lib buf (lit ''image/png'') of
        Inl e \<Rightarrow>
          (lg @ [(ERROR, lit ''Unexpected error in generate_code: '' @ e)],
           Text_status (lit ''Internal server error'') 500)
      | Inr response \<Rightarrow>
          (lg @ [(INFO, lit ''Successfully generated '' @ generate_type)],
           Response_object (add_security_headers response)))"

definition generate_code ::
    "Config \<Rightarrow> Libraries \<Rightarrow> (pystr \<rightharpoonup> pystr) \<Rightarrow> log \<times> view_result" where
  "generate_code cfg lib args =
     (let content = py_strip (args_get args (lit ''content'') []);
          generate_type = py_lower lib (args_get args (lit ''type'') (lit ''qrcode''));
          (is_valid, error_msg) = validate_input cfg content generate_type
      in
        if \<not> is_valid then
          ([(WARNING, lit ''Invalid input: '' @ error_msg @ lit '' - content='' @ content
                      @ lit '', type='' @ generate_type)],
           Text_status error_msg 400)
        else if generate_type = lit ''barcode'' then
          (let lg = [(INFO, lit ''Generating barcode for content: '' @ take 20 content @ lit ''...'')]
           in case code128_write lib content of
                Inl e \<Rightarrow>
                  (lg @ [(ERROR, lit ''Barcode generation failed: '' @ e)],
                   Text_status (lit ''Barcode generation error: '' @ e) 500)
              | Inr buf \<Rightarrow> prepare_response lib lg generate_type buf)
        else
          (let lg = [(INFO, lit ''Generating QR code for content: '' @ take 20 content @ lit ''...'')]
           in case qr_save lib content of
                Inl e \<Rightarrow>
                  (lg @ [(ERROR, lit ''QR code generation failed: '' @ e)],
                   Text_status (lit ''QR code generation error: '' @ e) 500)
              | Inr buf \<Rightarrow> prepare_response lib lg generate_type buf))"

section \<open>The rejection reasons, rendered\<close>

text \<open>
  The text of each reason as a caller reads it, with the limits written out. The
  invalid-type reason lists the allowed set in the order the process iterates it.
\<close>

definition missing_content_reason :: pystr where
  "missing_content_reason = lit ''Missing 'content' parameter''"

definition invalid_type_reason :: "bool \<Rightarrow> pystr" where
  "invalid_type_reason qrcode_first =
     (if qrcode_first then lit ''Invalid type. Must be one of: qrcode, barcode''
      else lit ''Invalid type. Must be one of: barcode, qrcode'')"

definition barcode_length_reason :: pystr where
  "barcode_length_reason = lit ''Barcode content exceeds maximum length of 64 characters''"

definition ascii_reason :: pystr where
  "ascii_reason = lit ''Barcode content must contain only ASCII characters''"

definition content_length_reason :: pystr where
  "content_length_reason = lit ''Content exceeds maximum length of 1000 characters''"

section \<open>The validator as the specification words it\<close>

text \<open>
  The specification lists the checks as one sequence, the first failing check giving the
  reason. \<open>validate_spec\<close> is that sequence, written from the specification, to be
  compared with \<open>validate_input\<close>.
\<close>

definition validate_spec :: "bool \<Rightarrow> pystr \<Rightarrow> pystr \<Rightarrow> bool \<times> pystr" where
  "validate_spec qrcode_first content kind =
     (if content = [] then (False, missing_content_reason)
      else if kind \<notin> {lit ''qrcode'', lit ''barcode''} then (False, invalid_type_reason qrcode_first)
      else if kind = lit ''barcode'' \<and> 64 < length content then (False, barcode_length_reason)
      else if kind = lit ''barcode'' \<and> list_ex (\<lambda>c. \<not> (0 \<le> int c \<and> int c < 128)) content
        then (False, ascii_reason)
      else if kind = lit ''qrcode'' \<and> 1000 < length content then (False, content_length_reason)
      else (True, []))"

text \<open>The number of bytes of a string in UTF-8, to tell code points from bytes.\<close>

definition utf8_width :: "nat \<Rightarrow> nat" where
  "utf8_width c = (if c < 128 then 1 else if c < 2048 then 2 else if c < 65536 then 3 else 4)"

definition utf8_length :: "pystr \<Rightarrow> nat" where
  "utf8_length s = sum_list (map utf8_width s)"

section \<open>Sample collaborators\<close>

text \<open>
  Two fixed sets of collaborators for concrete runs: one whose encoders succeed with a
  given buffer, one whose encoders raise with a given exception text.
\<close>

definition plain_response :: "bytes \<Rightarrow> pystr \<Rightarrow> pystr + Response" where
  "plain_response buf mt = Inr \<lparr> data = buf, mimetype = mt, headers = Map.empty \<rparr>"

definition working_libraries :: "bytes \<Rightarrow> Libraries" where
  "working_libraries png =
     \<lparr> code128_write = (\<lambda>content. Inr png), qr_save = (\<lambda>content. Inr png),
       send_file = plain_response, unicode_lower = (\<lambda>s. s) \<rparr>"

definition raising_libraries :: "pystr \<Rightarrow> Libraries" where
  "raising_libraries e =
     \<lparr> code128_write = (\<lambda>content. Inl e), qr_save = (\<lambda>content. Inl e),
       send_file = plain_response, unicode_lower = (\<lambda>s. s) \<rparr>"

section \<open>Rendering the reasons\<close>

text \<open>
  With the limits of \<open>config\<close> the formatted messages are the rendered reasons, and the
  validator is a cascade over emptiness, the kind, the length and the ASCII test.
\<close>

lemma digits_64: "digits 64 = lit ''64''"
  by (simp add: digits.simps lit_def)

lemma digits_1000: "digits 1000 = lit ''1000''"
  by (simp add: digits.simps lit_def)

lemma py_str_64: "py_str 64 = lit ''64''"
  by (simp add: py_str_def digits_64)

lemma py_str_1000: "py_str 1000 = lit ''1000''"
  by (simp add: py_str_def digits_1000)

lemma barcode_reason_rendered:
  "lit ''Barcode content exceeds maximum length of '' @ py_str 64 @ lit '' characters''
     = barcode_length_reason"
  by (simp add: py_str_64 barcode_length_reason_def lit_def)

lemma content_reason_rendered:
  "lit ''Content exceeds maximum length of '' @ py_str 1000 @ lit '' characters''
     = content_length_reason"
  by (simp add: py_str_1000 content_length_reason_def lit_def)

lemma invalid_type_rendered:
  "lit ''Invalid type. Must be one of: '' @ py_join (lit '', '') (ALLOWED_TYPES (config qf))
     = invalid_type_reason qf"
  by (simp add: config_def invalid_type_reason_def lit_def)

lemma allowed_types_config:
  "set (ALLOWED_TYPES (config qf)) = {lit ''qrcode'', lit ''barcode''}"
  by (auto simp: config_def)

lemma ascii_check: "list_all (\<lambda>char. 0 \<le> py_ord char \<and> py_ord char < 128) s = is_ascii s"
  by (simp add: py_ord_def is_ascii_def)

lemma validate_input_config:
  "validate_input (config qf) content generate_type =
     (if content = [] then (False, missing_content_reason)
      else if generate_type \<noteq> lit ''qrcode'' \<and> generate_type \<noteq> lit ''barcode''
        then (False, invalid_type_reason qf)
      else if generate_type = lit ''barcode'' then
        (if 64 < length content then (False, barcode_length_reason)
         else if \<not> is_ascii content then (False, ascii_reason)
         else (True, []))
      else
        (if 1000 < length content then (False, content_length_reason) else (True, [])))"
  unfolding validate_input_def allowed_types_config invalid_type_rendered ascii_check
  by (simp add: config_def py_len_def barcode_reason_rendered content_reason_rendered
      missing_content_reason_def ascii_reason_def)


lemma lit_neq: "lit ''qrcode'' \<noteq> lit ''barcode''"
  by (simp add: lit_def)

lemma reasons_nonempty:
  "missing_content_reason \<noteq> []" "invalid_type_reason qf \<noteq> []" "barcode_length_reason \<noteq> []"
  "ascii_reason \<noteq> []" "content_length_reason \<noteq> []"
  by (simp_all add: missing_content_reason_def invalid_type_reason_def barcode_length_reason_def
      ascii_reason_def content_length_reason_def lit_def)

lemma non_ascii_iff: "list_ex (\<lambda>c. \<not> (0 \<le> int c \<and> int c < 128)) s = (\<not> is_ascii s)"
  by (induction s) (simp_all add: is_ascii_def)

lemma utf8_length_replicate: "utf8_length (replicate n c) = n * utf8_width c"
  by (induction n) (simp_all add: utf8_length_def)

lemma reasons_distinct:
  "barcode_length_reason \<noteq> ascii_reason"
  "missing_content_reason \<noteq> invalid_type_reason qf"
  by (simp_all add: barcode_length_reason_def ascii_reason_def missing_content_reason_def
      invalid_type_reason_def lit_def)

lemma missing_distinct:
  "invalid_type_reason qf \<noteq> missing_content_reason"
  "barcode_length_reason \<noteq> missing_content_reason"
  "ascii_reason \<noteq> missing_content_reason"
  "content_length_reason \<noteq> missing_content_reason"
  "[] \<noteq> missing_content_reason"
  by (simp_all add: barcode_length_reason_def ascii_reason_def missing_content_reason_def
      invalid_type_reason_def content_length_reason_def lit_def)

lemma has_non_ascii: "list_ex (\<lambda>c. 128 \<le> c) s \<Longrightarrow> \<not> is_ascii s"
  by (induction s) (auto simp: is_ascii_def)

lemma mentions_64: "sublist (lit ''64'') barcode_length_reason"
proof -
  have "barcode_length_reason
          = lit ''Barcode content exceeds maximum length of '' @ lit ''64'' @ lit '' characters''"
    by (simp add: barcode_length_reason_def lit_def)
  then show ?thesis unfolding sublist_def by blast
qed

section \<open>Strings and query parameters in the handler\<close>

lemma keys_distinct: "lit ''content'' \<noteq> lit ''type''" "lit ''type'' \<noteq> lit ''content''"
  by (simp_all add: lit_def)

lemma py_strip_spaces:
  assumes "list_all is_space s"
  shows "py_strip s = []"
proof -
  from assms have "dropWhile is_space s = []"
    by (induction s) simp_all
  then have "py_strip s = rev (dropWhile is_space (rev []))"
    by (simp only: py_strip_def)
  then show ?thesis by simp
qed

lemma py_strip_replicate: "\<not> is_space c \<Longrightarrow> py_strip (replicate n c) = replicate n c"
  by (cases n) (simp_all add: py_strip_def replicate_append_same)

lemma is_ascii_lower: "is_ascii s \<Longrightarrow> is_ascii (map ascii_lower s)"
  by (induction s) (auto simp: is_ascii_def ascii_lower_def)

lemma ascii_lower_idem: "ascii_lower (ascii_lower c) = ascii_lower c"
  by (simp add: ascii_lower_def)

lemma py_lower_idem: "is_ascii s \<Longrightarrow> py_lower lib (py_lower lib s) = py_lower lib s"
  by (simp add: py_lower_def is_ascii_lower ascii_lower_idem)

lemma py_lower_known_types:
  "py_lower lib (lit ''qrcode'') = lit ''qrcode''"
  "py_lower lib (lit ''barcode'') = lit ''barcode''"
  by (simp_all add: py_lower_def is_ascii_def ascii_lower_def lit_def)

lemma args_get_upd:
  "args_get (args(k \<mapsto> v)) k d = v"
  "k' \<noteq> k \<Longrightarrow> args_get (args(k \<mapsto> v)) k' d = args_get args k' d"
  by (simp_all add: args_get_def)

section \<open>Properties of the validator\<close>

text \<open>
  C1. For every content and kind, \<open>validate_input\<close> applies the checks of the
  specification in its order, the first failing check giving the reason: empty content,
  then a kind outside the allowed set, then for a barcode the 64 limit and the ASCII
  test, for a QR code the 1000 limit, and otherwise valid with the empty reason. Length
  counts code points: 1000 copies of U+4E16 are 3000 bytes of UTF-8 and still valid.
\<close>

theorem validate_input_checks_in_order:
  "validate_input (config qf) content kind = validate_spec qf content kind
   \<and> validate_input (config qf) (replicate 1000 19990) (lit ''qrcode'') = (True, [])
   \<and> utf8_length (replicate 1000 19990) = 3000"
proof -
  have "validate_input (config qf) content kind = validate_spec qf content kind"
    unfolding validate_spec_def non_ascii_iff
    by (simp add: validate_input_config lit_neq)
  moreover have "validate_input (config qf) (replicate 1000 19990) (lit ''qrcode'') = (True, [])"
    by (simp add: validate_input_config lit_neq)
  moreover have "utf8_length (replicate 1000 19990) = 3000"
    by (simp add: utf8_length_replicate utf8_width_def)
  ultimately show ?thesis by simp
qed

text \<open>
  C4. For every kind, recognised or not, empty content is rejected with the
  missing-content reason: the emptiness check comes before every other check.
\<close>

theorem empty_content_has_priority:
  "validate_input (config qf) [] kind = (False, missing_content_reason)"
  by (simp add: validate_input_config)

text \<open>
  C6. For every content and kind, the reason returned by \<open>validate_input\<close> is empty
  exactly when the valid flag is true.
\<close>

theorem reason_empty_iff_valid:
  "(snd (validate_input (config qf) content kind) = [])
     = fst (validate_input (config qf) content kind)"
  by (simp add: validate_input_config reasons_nonempty)

text \<open>
  C3 as stated fails on a long string: 65 copies of U+00E9 have a code point of 128 or
  more, yet the barcode length check comes first and gives the 64-character-limit reason,
  not the ASCII reason.
\<close>

theorem non_ascii_barcode_after_length_counterexample:
  "list_ex (\<lambda>c. 128 \<le> c) (replicate 65 (233::nat))
   \<and> validate_input (config True) (replicate 65 233) (lit ''barcode'') = (False, barcode_length_reason)
   \<and> validate_input (config False) (replicate 65 233) (lit ''barcode'') = (False, barcode_length_reason)
   \<and> barcode_length_reason \<noteq> ascii_reason"
  by (simp add: validate_input_config reasons_distinct list_ex_iff)

text \<open>
  C3, amended. For every string with at least one code point of 128 or more,
  \<open>validate_input\<close> with kind barcode returns invalid: with the ASCII reason when the
  string has at most 64 code points, and with the 64-character-limit reason when it is
  longer.
\<close>

theorem non_ascii_barcode_rejected:
  assumes "list_ex (\<lambda>c. 128 \<le> c) s"
  shows "validate_input (config qf) s (lit ''barcode'')
           = (False, if 64 < length s then barcode_length_reason else ascii_reason)"
proof -
  from assms have "\<not> is_ascii s" by (rule has_non_ascii)
  moreover from assms have "s \<noteq> []" by auto
  ultimately show ?thesis by (simp add: validate_input_config)
qed

text \<open>The run on \<open>Hello\<close> followed by U+4E16 U+754C.\<close>

theorem non_ascii_barcode_rejected_witness:
  "list_ex (\<lambda>c. 128 \<le> c) [72, 101, 108, 108, 111, 19990, 30028 :: nat]
   \<and> validate_input (config True) [72, 101, 108, 108, 111, 19990, 30028] (lit ''barcode'')
       = (False, ascii_reason)"
proof -
  have h: "list_ex (\<lambda>c. 128 \<le> c) [72, 101, 108, 108, 111, 19990, 30028 :: nat]" by simp
  show ?thesis using h non_ascii_barcode_rejected [OF h, of True] by simp
qed

text \<open>
  C5 as stated fails on the empty string: with an unrecognised kind the emptiness
  check still comes first, and the reason is the missing-content one.
\<close>

theorem unknown_kind_empty_content_counterexample:
  "lit ''unknownkind'' \<notin> {lit ''qrcode'', lit ''barcode''}
   \<and> validate_input (config True) [] (lit ''unknownkind'') = (False, missing_content_reason)
   \<and> validate_input (config False) [] (lit ''unknownkind'') = (False, missing_content_reason)
   \<and> missing_content_reason \<noteq> invalid_type_reason True
   \<and> missing_content_reason \<noteq> invalid_type_reason False"
  by (simp add: validate_input_config reasons_distinct) (simp add: lit_def)

text \<open>
  C5, amended. For every non-empty string and every kind outside the recognised set,
  \<open>validate_input\<close> returns invalid with the invalid-type reason.
\<close>

theorem unknown_kind_rejected:
  assumes "s \<noteq> []" and "kind \<notin> {lit ''qrcode'', lit ''barcode''}"
  shows "validate_input (config qf) s kind = (False, invalid_type_reason qf)"
  using assms by (simp add: validate_input_config)

text \<open>The run on content \<open>x\<close> and kind \<open>unknownkind\<close>, in both iteration orders.\<close>

theorem unknown_kind_rejected_witness:
  "lit ''x'' \<noteq> [] \<and> lit ''unknownkind'' \<notin> {lit ''qrcode'', lit ''barcode''}
   \<and> validate_input (config True) (lit ''x'') (lit ''unknownkind'')
       = (False, lit ''Invalid type. Must be one of: qrcode, barcode'')
   \<and> validate_input (config False) (lit ''x'') (lit ''unknownkind'')
       = (False, lit ''Invalid type. Must be one of: barcode, qrcode'')"
proof -
  have h1: "lit ''x'' \<noteq> []" by (simp add: lit_def)
  have h2: "lit ''unknownkind'' \<notin> {lit ''qrcode'', lit ''barcode''}" by (simp add: lit_def)
  show ?thesis
    using h1 h2 unknown_kind_rejected [OF h1 h2, of True] unknown_kind_rejected [OF h1 h2, of False]
    by (simp add: invalid_type_reason_def)
qed

text \<open>
  C7. Every non-empty all-ASCII string of at most 64 code points is a valid barcode
  content; every all-ASCII string of exactly 65 code points is rejected with the
  length reason, whose text mentions \<open>64\<close>.
\<close>

theorem barcode_length_boundary:
  "(s \<noteq> [] \<and> is_ascii s \<and> length s \<le> 64
      \<longrightarrow> validate_input (config qf) s (lit ''barcode'') = (True, []))
   \<and> (is_ascii s \<and> length s = 65
      \<longrightarrow> validate_input (config qf) s (lit ''barcode'') = (False, barcode_length_reason)
          \<and> sublist (lit ''64'') barcode_length_reason)"
  by (auto simp: validate_input_config mentions_64)

text \<open>The runs on 64 and on 65 copies of \<open>A\<close>.\<close>

theorem barcode_length_boundary_witness:
  "(replicate 64 65 \<noteq> [] \<and> is_ascii (replicate 64 65) \<and> length (replicate 64 (65::nat)) \<le> 64)
   \<and> validate_input (config True) (replicate 64 65) (lit ''barcode'') = (True, [])
   \<and> (is_ascii (replicate 65 65) \<and> length (replicate 65 (65::nat)) = 65)
   \<and> validate_input (config True) (replicate 65 65) (lit ''barcode'')
       = (False, lit ''Barcode content exceeds maximum length of 64 characters'')"
proof -
  have h1: "replicate 64 65 \<noteq> [] \<and> is_ascii (replicate 64 65) \<and> length (replicate 64 (65::nat)) \<le> 64"
    by (simp add: is_ascii_def list_all_length)
  have h2: "is_ascii (replicate 65 65) \<and> length (replicate 65 (65::nat)) = 65"
    by (simp add: is_ascii_def list_all_length)
  show ?thesis
    using h1 h2 barcode_length_boundary [of "replicate 64 65" True]
      barcode_length_boundary [of "replicate 65 65" True]
    by (simp add: barcode_length_reason_def)
qed

text \<open>
  C8. Every non-empty string of at most 1000 code points, ASCII or not, is a valid QR
  content; every string of exactly 1001 code points is rejected with the
  1000-character-limit reason.
\<close>

theorem qrcode_length_boundary:
  "(s \<noteq> [] \<and> length s \<le> 1000 \<longrightarrow> validate_input (config qf) s (lit ''qrcode'') = (True, []))
   \<and> (length s = 1001
      \<longrightarrow> validate_input (config qf) s (lit ''qrcode'') = (False, content_length_reason))"
  by (auto simp: validate_input_config lit_neq)

text \<open>The runs on \<open>Hello\<close> followed by U+4E16 U+754C, and on 1001 copies of \<open>x\<close>.\<close>

theorem qrcode_length_boundary_witness:
  "([72, 101, 108, 108, 111, 19990, 30028] \<noteq> []
    \<and> length [72, 101, 108, 108, 111, 19990, 30028 :: nat] \<le> 1000
    \<and> \<not> is_ascii [72, 101, 108, 108, 111, 19990, 30028])
   \<and> validate_input (config True) [72, 101, 108, 108, 111, 19990, 30028] (lit ''qrcode'') = (True, [])
   \<and> length (replicate 1001 (120::nat)) = 1001
   \<and> validate_input (config True) (replicate 1001 120) (lit ''qrcode'')
       = (False, lit ''Content exceeds maximum length of 1000 characters'')"
proof -
  have h1: "[72, 101, 108, 108, 111, 19990, 30028] \<noteq> []
      \<and> length [72, 101, 108, 108, 111, 19990, 30028 :: nat] \<le> 1000"
    by simp
  have h2: "length (replicate 1001 (120::nat)) = 1001" by simp
  show ?thesis
    using h1 h2 qrcode_length_boundary [of "[72, 101, 108, 108, 111, 19990, 30028]" True]
      qrcode_length_boundary [of "replicate 1001 120" True]
    by (simp add: content_length_reason_def is_ascii_def)
qed

section \<open>Properties of the handler\<close>

text \<open>
  C2. The claim is that an encoder failure gives status 500 with a generic message, the
  exception text being logged and kept out of the body. Run with encoders that raise
  with text \<open>e\<close>, on a barcode request and on a QR request of 1000 copies of U+1F600,
  both of which pass validation: the status is 500 and the text is logged, but the body
  is the branch's prefix followed by \<open>e\<close> itself.
\<close>

theorem encoder_error_text_in_body:
  "generate_code (config qf) (raising_libraries e)
     [lit ''content'' \<mapsto> lit ''ABC123'', lit ''type'' \<mapsto> lit ''barcode'']
   = ([(INFO, lit ''Generating barcode for content: ABC123...''),
       (ERROR, lit ''Barcode generation failed: '' @ e)],
      Text_status (lit ''Barcode generation error: '' @ e) 500)
   \<and> generate_code (config qf) (raising_libraries e)
     [lit ''content'' \<mapsto> replicate 1000 128512, lit ''type'' \<mapsto> lit ''qrcode'']
   = ([(INFO, lit ''Generating QR code for content: '' @ replicate 20 128512 @ lit ''...''),
       (ERROR, lit ''QR code generation failed: '' @ e)],
      Text_status (lit ''QR code generation error: '' @ e) 500)"
proof -
  have abc: "py_strip (lit ''ABC123'') = lit ''ABC123''"
    by (simp add: py_strip_def lit_def is_space_def)
  have "\<not> is_space 128512" by (simp add: is_space_def)
  then have emoji: "py_strip (replicate 1000 128512) = replicate 1000 128512"
    by (rule py_strip_replicate)
  have "generate_code (config qf) (raising_libraries e)
     [lit ''content'' \<mapsto> lit ''ABC123'', lit ''type'' \<mapsto> lit ''barcode'']
   = ([(INFO, lit ''Generating barcode for content: ABC123...''),
       (ERROR, lit ''Barcode generation failed: '' @ e)],
      Text_status (lit ''Barcode generation error: '' @ e) 500)"
    by (simp add: generate_code_def args_get_upd keys_distinct py_lower_known_types abc
        validate_input_config raising_libraries_def) (simp add: lit_def is_ascii_def)
  moreover have "generate_code (config qf) (raising_libraries e)
     [lit ''content'' \<mapsto> replicate 1000 128512, lit ''type'' \<mapsto> lit ''qrcode'']
   = ([(INFO, lit ''Generating QR code for content: '' @ replicate 20 128512 @ lit ''...''),
       (ERROR, lit ''QR code generation failed: '' @ e)],
      Text_status (lit ''QR code generation error: '' @ e) 500)"
    by (simp add: generate_code_def args_get_upd keys_distinct py_lower_known_types emoji
        validate_input_config lit_neq raising_libraries_def)
  ultimately show ?thesis by simp
qed

text \<open>
  C9. The type parameter is matched without regard to case and defaults to qrcode: for
  every query and every ASCII type string, which covers every case variant of a
  recognised type, the handler does the same with the type as with its lower-cased form
  (same log, same result); and a query with no type parameter is handled as the same
  query with type \<open>qrcode\<close>.
\<close>

theorem type_case_insensitive_default_qrcode:
  "(is_ascii t \<longrightarrow>
      generate_code cfg lib (args(lit ''type'' \<mapsto> t))
        = generate_code cfg lib (args(lit ''type'' \<mapsto> py_lower lib t)))
   \<and> (args (lit ''type'') = None \<longrightarrow>
      generate_code cfg lib args = generate_code cfg lib (args(lit ''type'' \<mapsto> lit ''qrcode'')))"
proof (intro conjI impI)
  assume "is_ascii t"
  then show "generate_code cfg lib (args(lit ''type'' \<mapsto> t))
        = generate_code cfg lib (args(lit ''type'' \<mapsto> py_lower lib t))"
    by (simp add: generate_code_def args_get_upd keys_distinct py_lower_idem)
next
  assume "args (lit ''type'') = None"
  then have "args_get args (lit ''type'') (lit ''qrcode'') = lit ''qrcode''"
    by (simp add: args_get_def)
  then show "generate_code cfg lib args
        = generate_code cfg lib (args(lit ''type'' \<mapsto> lit ''qrcode''))"
    by (simp add: generate_code_def args_get_upd keys_distinct)
qed

text \<open>The runs on content \<open>Test\<close>: type \<open>QRCODE\<close>, type \<open>qrcode\<close> and no type.\<close>

theorem type_case_insensitive_default_qrcode_witness:
  "is_ascii (lit ''QRCODE'')
   \<and> py_lower (working_libraries [137, 80, 78, 71]) (lit ''QRCODE'') = lit ''qrcode''
   \<and> generate_code (config True) (working_libraries [137, 80, 78, 71])
        [lit ''content'' \<mapsto> lit ''Test'', lit ''type'' \<mapsto> lit ''QRCODE'']
       = generate_code (config True) (working_libraries [137, 80, 78, 71])
           [lit ''content'' \<mapsto> lit ''Test'', lit ''type'' \<mapsto> lit ''qrcode'']
   \<and> [lit ''content'' \<mapsto> lit ''Test''] (lit ''type'') = None
   \<and> generate_code (config True) (working_libraries [137, 80, 78, 71])
        [lit ''content'' \<mapsto> lit ''Test'']
       = generate_code (config True) (working_libraries [137, 80, 78, 71])
           [lit ''content'' \<mapsto> lit ''Test'', lit ''type'' \<mapsto> lit ''qrcode'']"
proof -
  have h1: "is_ascii (lit ''QRCODE'')" by (simp add: is_ascii_def lit_def)
  have h2: "[lit ''content'' \<mapsto> lit ''Test''] (lit ''type'') = None" by (simp add: lit_def)
  have l: "py_lower (working_libraries [137, 80, 78, 71]) (lit ''QRCODE'') = lit ''qrcode''"
    by (simp add: py_lower_def is_ascii_def ascii_lower_def lit_def)
  show ?thesis
    using h1 h2 l
      type_case_insensitive_default_qrcode [of "lit ''QRCODE''" "config True"
        "working_libraries [137, 80, 78, 71]" "[lit ''content'' \<mapsto> lit ''Test'']"]
    by simp
qed

text \<open>
  C10 as stated fails on a long string: 1001 spaces are white space only, and
  \<open>validate_input\<close> with kind qrcode rejects them with the 1000-character-limit reason.
\<close>

theorem whitespace_over_limit_counterexample:
  "list_all is_space (replicate 1001 32) \<and> replicate 1001 (32::nat) \<noteq> []
   \<and> validate_input (config True) (replicate 1001 32) (lit ''qrcode'') = (False, content_length_reason)
   \<and> validate_input (config False) (replicate 1001 32) (lit ''qrcode'') = (False, content_length_reason)"
  by (simp add: validate_input_config lit_neq list_all_iff is_space_def)

text \<open>
  C10, amended. \<open>validate_input\<close> does no trimming: for every non-empty string of
  white space only it never gives the missing-content reason, whatever the kind, and
  with kind qrcode it returns valid when the string has at most 1000 code points (and
  the 1000-character-limit reason when it is longer). The handler strips the content
  first, so a query whose content is such a string is answered with the
  missing-content reason and status 400.
\<close>

theorem validate_input_does_not_trim:
  assumes "s \<noteq> []" and "list_all is_space s"
  shows "validate_input (config qf) s (lit ''qrcode'')
           = (if 1000 < length s then (False, content_length_reason) else (True, []))
         \<and> snd (validate_input (config qf) s kind) \<noteq> missing_content_reason
         \<and> snd (generate_code (config qf) lib (args(lit ''content'' \<mapsto> s)))
             = Text_status missing_content_reason 400"
proof -
  from assms(1) have "validate_input (config qf) s (lit ''qrcode'')
      = (if 1000 < length s then (False, content_length_reason) else (True, []))"
    by (simp add: validate_input_config lit_neq)
  moreover from assms(1) have "snd (validate_input (config qf) s kind) \<noteq> missing_content_reason"
    by (simp add: validate_input_config missing_distinct)
  moreover have "snd (generate_code (config qf) lib (args(lit ''content'' \<mapsto> s)))
      = Text_status missing_content_reason 400"
    by (simp add: generate_code_def args_get_upd py_strip_spaces [OF assms(2)]
        validate_input_config)
  ultimately show ?thesis by simp
qed

text \<open>The run on three spaces.\<close>

theorem validate_input_does_not_trim_witness:
  "lit ''   '' \<noteq> [] \<and> list_all is_space (lit ''   '')
   \<and> validate_input (config True) (lit ''   '') (lit ''qrcode'') = (True, [])
   \<and> snd (generate_code (config True) (working_libraries [137, 80, 78, 71])
            [lit ''content'' \<mapsto> lit ''   ''])
       = Text_status (lit ''Missing 'content' parameter'') 400"
proof -
  have h1: "lit ''   '' \<noteq> []" by (simp add: lit_def)
  have h2: "list_all is_space (lit ''   '')" by (simp add: lit_def is_space_def)
  show ?thesis
    using h1 h2
      validate_input_does_not_trim [OF h1 h2, of True "lit ''qrcode''"
        "working_libraries [137, 80, 78, 71]" Map.empty]
    by (simp add: missing_content_reason_def) (simp add: lit_def)
qed

end
